theory Spec2Isabelle
  imports Complex_Main "HOL-Library.AList" "HOL-Library.Sublist" "HOL-Library.Multiset"
begin

text \<open>
  A shallow embedding of the context aggregation and retrieval code of the server:
  the schemas, the Aggregation Engine (\<^verbatim>\<open>ContextService\<close>), the Vector Index
  (\<^verbatim>\<open>VectorStore\<close>), the Retrieval Orchestrator (\<^verbatim>\<open>VectorContextService\<close>) and the
  dispatch of the endpoint. What lies outside the repository is a parameter: the Python
  library functions and the clock (\<open>pylib\<close>), the four vendor clients, which do network
  calls (\<open>clients\<close>), and the text splitter and the Chroma index (\<open>backend\<close>). A function
  that can raise returns \<open>Inl\<close> of the exception; a function that reads the clock or
  changes a service takes the state and returns the new one.
\<close>

section \<open>Python values, errors and library functions\<close>

text \<open>
  Vendor records and request mappings are Python dictionaries with string keys
  (\<^verbatim>\<open>Dict[str, Any]\<close>); they are association lists here, read with \<open>map_of\<close>.
  A point in time is the number of microseconds since \<^verbatim>\<open>datetime.min\<close>, so
  \<^verbatim>\<open>datetime.min\<close> is 0.
\<close>

type_synonym time = nat

datatype pyval =
    PNone
  | PBool bool
  | PInt int
  | PFloat real
  | PStr string
  | PDateTime time
  | PList "pyval list"
  | PDict "(string \<times> pyval) list"

type_synonym raw = "(string \<times> pyval) list"

datatype error =
    AttributeError
  | TypeError
  | ValueError
  | KeyError
  | ValidationError
  | AdapterError string
  | BackendError string

definition datetime_min :: time where
  "datetime_min = 0"

text \<open>Python truthiness (\<^verbatim>\<open>if v:\<close>); a datetime is always true.\<close>

fun truthy :: "pyval \<Rightarrow> bool" where
  "truthy PNone = False"
| "truthy (PBool b) = b"
| "truthy (PInt i) = (i \<noteq> 0)"
| "truthy (PFloat r) = (r \<noteq> 0)"
| "truthy (PStr s) = (s \<noteq> [])"
| "truthy (PDateTime t) = True"
| "truthy (PList xs) = (xs \<noteq> [])"
| "truthy (PDict d) = (d \<noteq> [])"

text \<open>\<^verbatim>\<open>d.get(k)\<close> and \<^verbatim>\<open>d.get(k, default)\<close>.\<close>

definition dget :: "raw \<Rightarrow> string \<Rightarrow> pyval" where
  "dget d k = (case map_of d k of None \<Rightarrow> PNone | Some v \<Rightarrow> v)"

definition dget_default :: "raw \<Rightarrow> string \<Rightarrow> pyval \<Rightarrow> pyval" where
  "dget_default d k dflt = (case map_of d k of None \<Rightarrow> dflt | Some v \<Rightarrow> v)"

text \<open>
  The functions of the Python library that the code calls and that are not
  defined here: the clock (\<open>now i\<close> is what the \<open>i\<close>-th call of
  \<^verbatim>\<open>datetime.now()\<close> returns), \<^verbatim>\<open>str()\<close>, \<^verbatim>\<open>int()\<close> and \<^verbatim>\<open>float()\<close> on strings
  and floats, \<^verbatim>\<open>str.lower\<close>, and the date parsers and printer. A parser returns
  \<open>None\<close> where Python raises \<^verbatim>\<open>ValueError\<close>.
\<close>

record pylib =
  now :: "nat \<Rightarrow> time"
  str_of :: "pyval \<Rightarrow> string"
  int_of :: "pyval \<Rightarrow> int option"
  float_of :: "pyval \<Rightarrow> real option"
  lower :: "string \<Rightarrow> string"
  fromisoformat :: "string \<Rightarrow> time option"
  strptime_rfc :: "string \<Rightarrow> time option"
  strptime_ymd :: "string \<Rightarrow> time option"
  isoformat :: "time \<Rightarrow> string"

text \<open>\<^verbatim>\<open>int(v)\<close>.\<close>

fun py_int :: "pylib \<Rightarrow> pyval \<Rightarrow> error + int" where
  "py_int L (PInt i) = Inr i"
| "py_int L (PBool b) = Inr (if b then 1 else 0)"
| "py_int L (PStr s) = (case int_of L (PStr s) of None \<Rightarrow> Inl ValueError | Some i \<Rightarrow> Inr i)"
| "py_int L (PFloat r) = (case int_of L (PFloat r) of None \<Rightarrow> Inl ValueError | Some i \<Rightarrow> Inr i)"
| "py_int L v = Inl TypeError"

text \<open>\<^verbatim>\<open>float(v)\<close>.\<close>

fun py_float :: "pylib \<Rightarrow> pyval \<Rightarrow> error + real" where
  "py_float L (PInt i) = Inr (of_int i)"
| "py_float L (PBool b) = Inr (if b then 1 else 0)"
| "py_float L (PFloat r) = Inr r"
| "py_float L (PStr s) = (case float_of L (PStr s) of None \<Rightarrow> Inl ValueError | Some r \<Rightarrow> Inr r)"
| "py_float L v = Inl TypeError"

text \<open>How an f-string prints a value.\<close>

fun fmt :: "pylib \<Rightarrow> pyval \<Rightarrow> string" where
  "fmt L (PStr s) = s"
| "fmt L PNone = ''None''"
| "fmt L v = str_of L v"

text \<open>\<^verbatim>\<open>v.lower()\<close>: only a string has the method.\<close>

fun py_lower :: "pylib \<Rightarrow> pyval \<Rightarrow> error + string" where
  "py_lower L (PStr s) = Inr (lower L s)"
| "py_lower L v = Inl AttributeError"

text \<open>\<^verbatim>\<open>a in b\<close> on strings.\<close>

fun is_substring :: "string \<Rightarrow> string \<Rightarrow> bool" where
  "is_substring a [] = (a = [])"
| "is_substring a (c # cs) = (take (length a) (c # cs) = a \<or> is_substring a cs)"

text \<open>\<^verbatim>\<open>v.replace("Z", "+00:00")\<close>.\<close>

definition replace_Z :: "string \<Rightarrow> string" where
  "replace_Z s = concat (map (\<lambda>c. if c = CHR ''Z'' then ''+00:00'' else [c]) s)"

fun py_replace_Z :: "pyval \<Rightarrow> error + string" where
  "py_replace_Z (PStr s) = Inr (replace_Z s)"
| "py_replace_Z v = Inl AttributeError"

text \<open>\<^verbatim>\<open>xs[:k]\<close>: a negative bound counts from the end.\<close>

definition slice_to :: "'a list \<Rightarrow> int \<Rightarrow> 'a list" where
  "slice_to xs k = (if 0 \<le> k then take (nat k) xs else take (length xs - nat (- k)) xs)"

text \<open>\<^verbatim>\<open>limit or d\<close> for an optional integer.\<close>

definition or_default :: "int option \<Rightarrow> int \<Rightarrow> int" where
  "or_default l d = (case l of None \<Rightarrow> d | Some k \<Rightarrow> if k = 0 then d else k)"

section \<open>The data model (models/schemas.py)\<close>

datatype payload =
    Plain
  | Email (subject: string) (sender: string) (recipients: "string list") (date: time)
      (thread_id: "string option")
  | Meeting (title: string) (participants: "string list") (date: time) (duration: int)
      (meeting_id: string)
  | Document (title: string) (authors: "string list") (last_edited: time) (page_id: string)
  | Opportunity (name: string) (stage: string) (amount: "real option")
      (close_date: "time option") (account_name: string) (owner_name: string)
      (opportunity_id: string)
  | Account (name: string) (industry: "string option") (website: "string option")
      (account_id: string) (description: "string option")
  | Contact (name: string) (email: "string option") (phone: "string option")
      (ctitle: "string option") (caccount_name: "string option") (contact_id: string)

record context_item =
  ctype :: string
  source :: string
  content :: string
  metadata :: raw
  timestamp :: "time option"
  payload :: payload

record context_request =
  query :: "string option"
  time_range :: "raw option"
  sources :: "string list option"
  limit :: "int option"
  entity_focus :: "raw option"

record context_response =
  rsource :: string
  context_items :: "context_item list"
  rquery :: "string option"
  rtimestamp :: time

subsection \<open>Field validation (pydantic)\<close>

text \<open>
  A \<^verbatim>\<open>str\<close> field takes a string and coerces a number; \<^verbatim>\<open>None\<close> and containers are
  refused. An \<^verbatim>\<open>int\<close> field converts with \<^verbatim>\<open>int()\<close>. An optional field takes \<^verbatim>\<open>None\<close>.
\<close>

fun v_str :: "pylib \<Rightarrow> pyval \<Rightarrow> error + string" where
  "v_str L (PStr s) = Inr s"
| "v_str L (PInt i) = Inr (str_of L (PInt i))"
| "v_str L (PBool b) = Inr (str_of L (PBool b))"
| "v_str L (PFloat r) = Inr (str_of L (PFloat r))"
| "v_str L v = Inl ValidationError"

fun v_opt_str :: "pylib \<Rightarrow> pyval \<Rightarrow> error + string option" where
  "v_opt_str L PNone = Inr None"
| "v_opt_str L v = (case v_str L v of Inl e \<Rightarrow> Inl e | Inr s \<Rightarrow> Inr (Some s))"

fun v_int :: "pylib \<Rightarrow> pyval \<Rightarrow> error + int" where
  "v_int L v = (case py_int L v of Inl e \<Rightarrow> Inl ValidationError | Inr i \<Rightarrow> Inr i)"

section \<open>Computations: the clock and exceptions\<close>

text \<open>
  A computation takes a state and returns either the exception it raised or its value,
  with the new state. In the Aggregation Engine the state is the number of clock readings
  made so far. \<open>bind\<close> is sequencing,
  \<open>catch\<close> is \<^verbatim>\<open>try: ... except Exception:\<close>.
\<close>

type_synonym ('a, 's) run = "'s \<Rightarrow> (error + 'a) \<times> 's"

type_synonym 'a comp = "('a, nat) run"

definition ret :: "'a \<Rightarrow> ('a, 's) run" where
  "ret x = (\<lambda>n. (Inr x, n))"

definition raise :: "error \<Rightarrow> ('a, 's) run" where
  "raise e = (\<lambda>n. (Inl e, n))"

definition lift :: "error + 'a \<Rightarrow> ('a, 's) run" where
  "lift r = (\<lambda>n. (r, n))"

definition bind :: "('a, 's) run \<Rightarrow> ('a \<Rightarrow> ('b, 's) run) \<Rightarrow> ('b, 's) run" where
  "bind m f = (\<lambda>n. case m n of (Inl e, n') \<Rightarrow> (Inl e, n') | (Inr x, n') \<Rightarrow> f x n')"

definition catch :: "('a, 's) run \<Rightarrow> (error \<Rightarrow> ('a, 's) run) \<Rightarrow> ('a, 's) run" where
  "catch m h = (\<lambda>n. case m n of (Inl e, n') \<Rightarrow> h e n' | (Inr x, n') \<Rightarrow> (Inr x, n'))"

definition read_clock :: "pylib \<Rightarrow> time comp" where
  "read_clock L = (\<lambda>n. (Inr (now L n), Suc n))"

definition parsed :: "time option \<Rightarrow> time comp" where
  "parsed r = (case r of None \<Rightarrow> raise ValueError | Some d \<Rightarrow> ret d)"

text \<open>
  A \<^verbatim>\<open>for\<close> loop whose body appends at most one item: an exception in the body ends the
  loop and the items collected so far are lost.
\<close>

fun for_each :: "('r \<Rightarrow> ('a option, 's) run) \<Rightarrow> 'r list \<Rightarrow> ('a list, 's) run" where
  "for_each f [] = ret []"
| "for_each f (r # rs) =
     bind (f r) (\<lambda>x. bind (for_each f rs) (\<lambda>xs.
       ret (case x of None \<Rightarrow> xs | Some y \<Rightarrow> y # xs)))"

text \<open>A loop body inside its own \<^verbatim>\<open>try: ... except Exception: continue\<close>.\<close>

definition isolated :: "('r \<Rightarrow> ('a option, 's) run) \<Rightarrow> 'r \<Rightarrow> ('a option, 's) run" where
  "isolated f r = catch (f r) (\<lambda>e. ret None)"

subsection \<open>The constructors\<close>

text \<open>
  None of the callers passes \<^verbatim>\<open>timestamp\<close>, so the field takes its default,
  \<^verbatim>\<open>default_factory=datetime.now\<close>: a reading of the clock. Every call of a constructor
  reads the clock once, whether the validation succeeds or not.
\<close>

definition mk_item :: "string \<Rightarrow> string \<Rightarrow> string \<Rightarrow> raw \<Rightarrow> time \<Rightarrow> payload
    \<Rightarrow> context_item" where
  "mk_item ty src c md ts p =
     \<lparr>ctype = ty, source = src, content = c, metadata = md,
      timestamp = Some ts, payload = p\<rparr>"

definition ContextItem :: "pylib \<Rightarrow> pyval \<Rightarrow> pyval \<Rightarrow> pyval \<Rightarrow> raw \<Rightarrow> context_item comp" where
  "ContextItem L ty src c md =
     bind (read_clock L) (\<lambda>ts.
     bind (lift (v_str L ty)) (\<lambda>ty'.
     bind (lift (v_str L src)) (\<lambda>src'.
     bind (lift (v_str L c)) (\<lambda>c'.
       ret (mk_item ty' src' c' md ts Plain)))))"

definition MeetingContext :: "pylib \<Rightarrow> pyval \<Rightarrow> pyval \<Rightarrow> string list \<Rightarrow> time
    \<Rightarrow> pyval \<Rightarrow> pyval \<Rightarrow> raw \<Rightarrow> context_item comp" where
  "MeetingContext L c ttl ps d dur mid md =
     bind (read_clock L) (\<lambda>ts.
     bind (lift (v_str L c)) (\<lambda>c'.
     bind (lift (v_str L ttl)) (\<lambda>ttl'.
     bind (lift (v_int L dur)) (\<lambda>dur'.
     bind (lift (v_str L mid)) (\<lambda>mid'.
       ret (mk_item ''meeting'' ''zoom'' c' md ts (Meeting ttl' ps d dur' mid')))))))"

text \<open>The caller's \<^verbatim>\<open>recipients\<close> is always a list of one value, \<open>rcp\<close>.\<close>

definition EmailContext :: "pylib \<Rightarrow> pyval \<Rightarrow> pyval \<Rightarrow> pyval \<Rightarrow> pyval \<Rightarrow> time
    \<Rightarrow> pyval \<Rightarrow> raw \<Rightarrow> context_item comp" where
  "EmailContext L c subj sndr rcp d tid md =
     bind (read_clock L) (\<lambda>ts.
     bind (lift (v_str L c)) (\<lambda>c'.
     bind (lift (v_str L subj)) (\<lambda>subj'.
     bind (lift (v_str L sndr)) (\<lambda>sndr'.
     bind (lift (v_str L rcp)) (\<lambda>rcp'.
     bind (lift (v_opt_str L tid)) (\<lambda>tid'.
       ret (mk_item ''email'' ''gmail'' c' md ts (Email subj' sndr' [rcp'] d tid'))))))))"

definition DocumentContext :: "pylib \<Rightarrow> string \<Rightarrow> pyval \<Rightarrow> string list \<Rightarrow> time
    \<Rightarrow> pyval \<Rightarrow> raw \<Rightarrow> context_item comp" where
  "DocumentContext L c ttl aus le pid md =
     bind (read_clock L) (\<lambda>ts.
     bind (lift (v_str L ttl)) (\<lambda>ttl'.
     bind (lift (v_str L pid)) (\<lambda>pid'.
       ret (mk_item ''document'' ''notion'' c md ts (Document ttl' aus le pid')))))"

definition OpportunityContext :: "pylib \<Rightarrow> string \<Rightarrow> pyval \<Rightarrow> pyval \<Rightarrow> real option
    \<Rightarrow> time option \<Rightarrow> pyval \<Rightarrow> pyval \<Rightarrow> pyval \<Rightarrow> raw \<Rightarrow> context_item comp" where
  "OpportunityContext L c nm stg amt cd acc own oid md =
     bind (read_clock L) (\<lambda>ts.
     bind (lift (v_str L nm)) (\<lambda>nm'.
     bind (lift (v_str L stg)) (\<lambda>stg'.
     bind (lift (v_str L acc)) (\<lambda>acc'.
     bind (lift (v_str L own)) (\<lambda>own'.
     bind (lift (v_str L oid)) (\<lambda>oid'.
       ret (mk_item ''opportunity'' ''salesforce'' c md ts
              (Opportunity nm' stg' amt cd acc' own' oid'))))))))"

definition AccountContext :: "pylib \<Rightarrow> pyval \<Rightarrow> pyval \<Rightarrow> pyval \<Rightarrow> pyval \<Rightarrow> pyval
    \<Rightarrow> raw \<Rightarrow> context_item comp" where
  "AccountContext L c nm ind web aid md =
     bind (read_clock L) (\<lambda>ts.
     bind (lift (v_str L c)) (\<lambda>c'.
     bind (lift (v_str L nm)) (\<lambda>nm'.
     bind (lift (v_opt_str L ind)) (\<lambda>ind'.
     bind (lift (v_opt_str L web)) (\<lambda>web'.
     bind (lift (v_str L aid)) (\<lambda>aid'.
       ret (mk_item ''account'' ''salesforce'' c' md ts
              (Account nm' ind' web' aid' None))))))))"

definition ContactContext :: "pylib \<Rightarrow> string \<Rightarrow> string \<Rightarrow> pyval \<Rightarrow> pyval \<Rightarrow> pyval
    \<Rightarrow> pyval \<Rightarrow> pyval \<Rightarrow> raw \<Rightarrow> context_item comp" where
  "ContactContext L c nm em ph ttl acc cid md =
     bind (read_clock L) (\<lambda>ts.
     bind (lift (v_opt_str L em)) (\<lambda>em'.
     bind (lift (v_opt_str L ph)) (\<lambda>ph'.
     bind (lift (v_opt_str L ttl)) (\<lambda>ttl'.
     bind (lift (v_opt_str L acc)) (\<lambda>acc'.
     bind (lift (v_str L cid)) (\<lambda>cid'.
       ret (mk_item ''contact'' ''salesforce'' c md ts
              (Contact nm em' ph' ttl' acc' cid'))))))))"

section \<open>The source adapters (integrations/)\<close>

text \<open>
  Each client operation performs network calls; it is a function of its arguments that
  returns the vendor's records or raises. The arguments are the ones the callers pass.
\<close>

record clients =
  zoom_get_recent_meeting_transcripts :: "int \<Rightarrow> int \<Rightarrow> error + raw list"
  gmail_search_emails :: "string \<Rightarrow> int \<Rightarrow> error + raw list"
  gmail_get_recent_emails :: "int \<Rightarrow> int \<Rightarrow> error + raw list"
  notion_search_pages :: "string \<Rightarrow> int \<Rightarrow> error + raw list"
  notion_get_database_pages :: "int \<Rightarrow> error + raw list"
  notion_get_page_content :: "pyval \<Rightarrow> error + raw"
  sf_get_accounts :: "int \<Rightarrow> error + raw list"
  sf_get_contacts :: "pyval \<Rightarrow> int \<Rightarrow> error + raw list"
  sf_get_opportunities :: "int \<Rightarrow> int \<Rightarrow> error + raw list"

section \<open>The Aggregation Engine (services/context\_service.py)\<close>

text \<open>\<^verbatim>\<open>if query\<close>: the query is given and not the empty string.\<close>

definition has_query :: "string option \<Rightarrow> bool" where
  "has_query q = (case q of None \<Rightarrow> False | Some s \<Rightarrow> s \<noteq> [])"

definition query_text :: "string option \<Rightarrow> string" where
  "query_text q = (case q of None \<Rightarrow> [] | Some s \<Rightarrow> s)"

text \<open>\<^verbatim>\<open>query and query.lower() not in v.lower()\<close>: whether the record is skipped.\<close>

definition query_misses :: "pylib \<Rightarrow> string option \<Rightarrow> pyval \<Rightarrow> bool comp" where
  "query_misses L q v =
     (case q of
        None \<Rightarrow> ret False
      | Some s \<Rightarrow>
          if s = [] then ret False
          else bind (lift (py_lower L v)) (\<lambda>low. ret (\<not> is_substring (lower L s) low)))"

subsection \<open>Zoom\<close>

definition zoom_item :: "pylib \<Rightarrow> string option \<Rightarrow> raw \<Rightarrow> context_item option comp" where
  "zoom_item L q t =
     bind (query_misses L q (dget_default t ''transcript'' (PStr ''''))) (\<lambda>skip.
     if skip then ret None
     else
       bind (if truthy (dget t ''start_time'')
             then bind (lift (py_replace_Z (dget t ''start_time''))) (\<lambda>s.
                    parsed (fromisoformat L s))
             else read_clock L) (\<lambda>d.
       bind (MeetingContext L
               (dget_default t ''transcript'' (PStr ''''))
               (dget_default t ''topic'' (PStr ''Unknown Meeting''))
               [''Unknown'']
               d
               (dget_default t ''duration'' (PInt 0))
               (dget_default t ''meeting_id'' (PStr ''''))
               [(''source'', PStr ''zoom''), (''date'', dget t ''start_time'')]) (\<lambda>it.
       ret (Some it))))"

definition get_zoom_context :: "pylib \<Rightarrow> clients \<Rightarrow> string option \<Rightarrow> int \<Rightarrow> int option
    \<Rightarrow> context_item list comp" where
  "get_zoom_context L C q days_back lmt =
     catch
       (bind (lift (zoom_get_recent_meeting_transcripts C days_back (or_default lmt 5)))
          (\<lambda>transcripts. for_each (zoom_item L q) transcripts))
       (\<lambda>e. ret [])"

subsection \<open>Gmail\<close>

definition gmail_item :: "pylib \<Rightarrow> raw \<Rightarrow> context_item option comp" where
  "gmail_item L em =
     bind (case dget_default em ''date'' (PStr '''') of
             PStr s \<Rightarrow> catch (parsed (strptime_rfc L s)) (\<lambda>e. read_clock L)
           | _ \<Rightarrow> raise TypeError) (\<lambda>d.
     bind (EmailContext L
             (dget_default em ''body'' (dget_default em ''snippet'' (PStr '''')))
             (dget_default em ''subject'' (PStr ''''))
             (dget_default em ''from'' (PStr ''''))
             (dget_default em ''to'' (PStr ''''))
             d
             (dget_default em ''thread_id'' (PStr ''''))
             [(''source'', PStr ''gmail''), (''id'', dget_default em ''id'' (PStr ''''))]) (\<lambda>it.
     ret (Some it)))"

definition get_gmail_context :: "pylib \<Rightarrow> clients \<Rightarrow> string option \<Rightarrow> int \<Rightarrow> int option
    \<Rightarrow> context_item list comp" where
  "get_gmail_context L C q days_back lmt =
     catch
       (bind (lift (if has_query q
                    then gmail_search_emails C (query_text q) (or_default lmt 10)
                    else gmail_get_recent_emails C days_back (or_default lmt 10)))
          (\<lambda>emails. for_each (isolated (gmail_item L)) emails))
       (\<lambda>e. ret [])"

subsection \<open>Notion\<close>

text \<open>\<^verbatim>\<open>block.get("text", "")\<close> of one content block, as \<^verbatim>\<open>"\n".join\<close> needs it.\<close>

fun block_text :: "pyval \<Rightarrow> error + string" where
  "block_text (PDict b) =
     (case dget_default b ''text'' (PStr '''') of PStr s \<Rightarrow> Inr s | _ \<Rightarrow> Inl TypeError)"
| "block_text v = Inl AttributeError"

fun block_texts :: "pyval list \<Rightarrow> error + string list" where
  "block_texts [] = Inr []"
| "block_texts (b # bs) =
     (case block_text b of
        Inl e \<Rightarrow> Inl e
      | Inr s \<Rightarrow> (case block_texts bs of Inl e \<Rightarrow> Inl e | Inr ss \<Rightarrow> Inr (s # ss)))"

fun join_nl :: "string list \<Rightarrow> string" where
  "join_nl [] = []"
| "join_nl [s] = s"
| "join_nl (s # t # ss) = s @ [CHR 0x0A] @ join_nl (t # ss)"

text \<open>
  The text of the blocks in \<^verbatim>\<open>page_with_content.get("content", [])\<close>. Iterating an
  empty string or an empty dictionary gives no block; any other value that is not a
  list makes the comprehension raise.
\<close>

fun content_text :: "pyval \<Rightarrow> error + string" where
  "content_text (PList bs) =
     (case block_texts bs of Inl e \<Rightarrow> Inl e | Inr ss \<Rightarrow> Inr (join_nl ss))"
| "content_text (PStr s) = (if s = [] then Inr [] else Inl AttributeError)"
| "content_text (PDict d) = (if d = [] then Inr [] else Inl AttributeError)"
| "content_text v = Inl TypeError"

definition notion_item :: "pylib \<Rightarrow> clients \<Rightarrow> raw \<Rightarrow> context_item option comp" where
  "notion_item L C page =
     (let page_id = dget page ''id'' in
      if \<not> truthy page_id then ret None
      else
        bind (lift (notion_get_page_content C page_id)) (\<lambda>page_with_content.
        bind (lift (content_text (dget_default page_with_content ''content'' (PList []))))
          (\<lambda>text.
        bind (bind (lift (py_replace_Z (dget_default page ''last_edited_time'' (PStr ''''))))
                (\<lambda>s. catch (parsed (fromisoformat L s)) (\<lambda>e. read_clock L))) (\<lambda>le.
        bind (DocumentContext L
                text
                (dget_default page ''title'' (PStr ''Untitled''))
                [''Unknown'']
                le
                page_id
                [(''source'', PStr ''notion''),
                 (''url'', dget_default page ''url'' (PStr '''')),
                 (''created_time'', dget_default page ''created_time'' (PStr ''''))]) (\<lambda>it.
        ret (Some it))))))"

definition get_notion_context :: "pylib \<Rightarrow> clients \<Rightarrow> string option \<Rightarrow> int option
    \<Rightarrow> context_item list comp" where
  "get_notion_context L C q lmt =
     catch
       (bind (lift (if has_query q
                    then notion_search_pages C (query_text q) (or_default lmt 10)
                    else notion_get_database_pages C (or_default lmt 10)))
          (\<lambda>pages. for_each (isolated (notion_item L C)) pages))
       (\<lambda>e. ret [])"

subsection \<open>Salesforce\<close>

text \<open>\<^verbatim>\<open>r.get(k, {}).get("Name") if r.get(k) else dflt\<close>.\<close>

definition nested_name :: "raw \<Rightarrow> string \<Rightarrow> pyval \<Rightarrow> error + pyval" where
  "nested_name r k dflt =
     (if truthy (dget r k)
      then (case dget r k of PDict d \<Rightarrow> Inr (dget d ''Name'') | _ \<Rightarrow> Inl AttributeError)
      else Inr dflt)"

definition account_item :: "pylib \<Rightarrow> raw \<Rightarrow> context_item option comp" where
  "account_item L account =
     bind (AccountContext L
             (dget_default account ''Description'' (PStr ''No description available''))
             (dget_default account ''Name'' (PStr ''Unknown Account''))
             (dget account ''Industry'')
             (dget account ''Website'')
             (dget account ''Id'')
             [(''source'', PStr ''salesforce''),
              (''type'', dget account ''Type''),
              (''phone'', dget account ''Phone''),
              (''last_modified'', dget account ''LastModifiedDate'')]) (\<lambda>it.
     ret (Some it))"

definition contact_item :: "pylib \<Rightarrow> raw \<Rightarrow> context_item option comp" where
  "contact_item L contact =
     (let fname = fmt L (dget_default contact ''FirstName'' (PStr ''''));
          lname = fmt L (dget_default contact ''LastName'' (PStr ''''))
      in
        bind (lift (nested_name contact ''Account'' PNone)) (\<lambda>acc.
        bind (ContactContext L
                (''Contact: '' @ fname @ '' '' @ lname @ '', ''
                   @ fmt L (dget_default contact ''Title'' (PStr ''No title'')) @ '', ''
                   @ fmt L (dget_default contact ''Email'' (PStr ''No email'')))
                (fname @ '' '' @ lname)
                (dget contact ''Email'')
                (dget contact ''Phone'')
                (dget contact ''Title'')
                acc
                (dget contact ''Id'')
                [(''source'', PStr ''salesforce''),
                 (''department'', dget contact ''Department''),
                 (''account_id'', dget contact ''AccountId''),
                 (''last_modified'', dget contact ''LastModifiedDate'')]) (\<lambda>it.
        ret (Some it))))"

definition opportunity_item :: "pylib \<Rightarrow> string option \<Rightarrow> raw \<Rightarrow> context_item option comp"
  where
  "opportunity_item L q opp =
     bind (query_misses L q (dget_default opp ''Name'' (PStr ''''))) (\<lambda>skip.
     if skip then ret None
     else
       bind (if truthy (dget opp ''CloseDate'')
             then (case dget opp ''CloseDate'' of
                     PStr s \<Rightarrow> ret (strptime_ymd L s)
                   | _ \<Rightarrow> raise TypeError)
             else ret None) (\<lambda>cd.
       bind (if truthy (dget opp ''Amount'')
             then bind (lift (py_float L (dget opp ''Amount''))) (\<lambda>a. ret (Some a))
             else ret None) (\<lambda>amt.
       bind (lift (nested_name opp ''Account'' (PStr ''Unknown Account''))) (\<lambda>acc.
       bind (lift (nested_name opp ''Owner'' (PStr ''Unknown Owner''))) (\<lambda>own.
       bind (OpportunityContext L
               (''Opportunity: '' @ fmt L (dget opp ''Name'') @ '', Stage: ''
                  @ fmt L (dget opp ''StageName'') @ '', Amount: ''
                  @ fmt L (dget opp ''Amount''))
               (dget_default opp ''Name'' (PStr ''Unknown Opportunity''))
               (dget_default opp ''StageName'' (PStr ''Unknown Stage''))
               amt
               cd
               acc
               own
               (dget opp ''Id'')
               [(''source'', PStr ''salesforce''),
                (''account_id'', dget opp ''AccountId''),
                (''owner_id'', dget opp ''OwnerId''),
                (''last_modified'', dget opp ''LastModifiedDate'')]) (\<lambda>it.
       ret (Some it)))))))"

text \<open>\<^verbatim>\<open>entity_focus and "account_id" in entity_focus\<close>, with the value under the key.\<close>

definition focus_account :: "raw option \<Rightarrow> pyval option" where
  "focus_account ef =
     (case ef of None \<Rightarrow> None | Some d \<Rightarrow> if d = [] then None else map_of d ''account_id'')"

definition get_salesforce_context :: "pylib \<Rightarrow> clients \<Rightarrow> string option \<Rightarrow> raw option \<Rightarrow> int
    \<Rightarrow> int option \<Rightarrow> context_item list comp" where
  "get_salesforce_context L C q ef days_back lmt =
     catch
       (case focus_account ef of
          Some aid \<Rightarrow>
            bind (lift (sf_get_accounts C 1)) (\<lambda>accounts.
            bind (lift (sf_get_contacts C aid (or_default lmt 5))) (\<lambda>contacts.
            bind (for_each (account_item L) accounts) (\<lambda>as.
            bind (for_each (contact_item L) contacts) (\<lambda>cs.
            ret (as @ cs)))))
        | None \<Rightarrow>
            bind (lift (sf_get_opportunities C days_back (or_default lmt 5))) (\<lambda>opps.
            for_each (opportunity_item L q) opps))
       (\<lambda>e. ret [])"

subsection \<open>get\_context\<close>

definition all_sources :: "string list" where
  "all_sources = [''zoom'', ''gmail'', ''notion'', ''salesforce'']"

text \<open>\<^verbatim>\<open>request.sources or [...]\<close>.\<close>

definition enabled_sources :: "context_request \<Rightarrow> string list" where
  "enabled_sources req =
     (case sources req of None \<Rightarrow> all_sources | Some ss \<Rightarrow> if ss = [] then all_sources else ss)"

text \<open>The number of days: 7 unless \<^verbatim>\<open>time_range\<close> has the key, and then \<^verbatim>\<open>int()\<close> of it.\<close>

definition days_back_of :: "pylib \<Rightarrow> context_request \<Rightarrow> error + int" where
  "days_back_of L req =
     (case time_range req of
        None \<Rightarrow> Inr 7
      | Some tr \<Rightarrow>
          if tr = [] then Inr 7
          else (case map_of tr ''days_back'' of None \<Rightarrow> Inr 7 | Some v \<Rightarrow> py_int L v))"

text \<open>
  The fan-out. \<open>source_context\<close> is the call that \<^verbatim>\<open>get_context\<close> makes for a source,
  \<open>from_source\<close> is that call under its \<^verbatim>\<open>if "..." in sources\<close>, and \<open>collect\<close> runs the
  four in the order of the code and concatenates what they return.
\<close>

datatype source_name = Zoom | Gmail | Notion | Salesforce

fun source_key :: "source_name \<Rightarrow> string" where
  "source_key Zoom = ''zoom''"
| "source_key Gmail = ''gmail''"
| "source_key Notion = ''notion''"
| "source_key Salesforce = ''salesforce''"

fun source_context :: "pylib \<Rightarrow> clients \<Rightarrow> context_request \<Rightarrow> int \<Rightarrow> source_name
    \<Rightarrow> context_item list comp" where
  "source_context L C req days_back Zoom =
     get_zoom_context L C (query req) days_back (limit req)"
| "source_context L C req days_back Gmail =
     get_gmail_context L C (query req) days_back (limit req)"
| "source_context L C req days_back Notion =
     get_notion_context L C (query req) (limit req)"
| "source_context L C req days_back Salesforce =
     get_salesforce_context L C (query req) (entity_focus req) days_back (limit req)"

definition from_source :: "pylib \<Rightarrow> clients \<Rightarrow> context_request \<Rightarrow> int \<Rightarrow> source_name
    \<Rightarrow> context_item list comp" where
  "from_source L C req days_back s =
     (if source_key s \<in> set (enabled_sources req) then source_context L C req days_back s
      else ret [])"

definition collect :: "pylib \<Rightarrow> clients \<Rightarrow> context_request \<Rightarrow> int \<Rightarrow> context_item list comp"
  where
  "collect L C req days_back =
     bind (from_source L C req days_back Zoom) (\<lambda>zoom_items.
     bind (from_source L C req days_back Gmail) (\<lambda>gmail_items.
     bind (from_source L C req days_back Notion) (\<lambda>notion_items.
     bind (from_source L C req days_back Salesforce) (\<lambda>salesforce_items.
     ret (zoom_items @ gmail_items @ notion_items @ salesforce_items)))))"

text \<open>The sort key: \<^verbatim>\<open>x.timestamp if x.timestamp else datetime.min\<close>.\<close>

definition sort_key_of :: "context_item \<Rightarrow> time" where
  "sort_key_of x = (case timestamp x of None \<Rightarrow> datetime_min | Some t \<Rightarrow> t)"

text \<open>
  \<^verbatim>\<open>list.sort(key=..., reverse=True)\<close>: Python's sort is stable, and with \<^verbatim>\<open>reverse\<close> the
  items of equal key keep their order too. That is the stable ascending sort on the
  negated key.
\<close>

definition sort_reverse :: "('a \<Rightarrow> time) \<Rightarrow> 'a list \<Rightarrow> 'a list" where
  "sort_reverse k xs = sort_key (\<lambda>x. - int (k x)) xs"

text \<open>\<^verbatim>\<open>if request.limit and len(items) > request.limit: items = items[:request.limit]\<close>.\<close>

definition apply_limit :: "'a list \<Rightarrow> int option \<Rightarrow> 'a list" where
  "apply_limit items lmt =
     (case lmt of
        None \<Rightarrow> items
      | Some k \<Rightarrow> if k \<noteq> 0 \<and> k < int (length items) then slice_to items k else items)"

definition get_context :: "pylib \<Rightarrow> clients \<Rightarrow> context_request \<Rightarrow> context_response comp" where
  "get_context L C req =
     bind (lift (days_back_of L req)) (\<lambda>days_back.
     bind (collect L C req days_back) (\<lambda>items.
     bind (read_clock L) (\<lambda>ts.
     ret \<lparr>rsource = ''vibecoding-mcp'',
          context_items = apply_limit (sort_reverse sort_key_of items) (limit req),
          rquery = query req,
          rtimestamp = ts\<rparr>)))"

section \<open>The Vector Index (services/vector\_store.py)\<close>

text \<open>
  A stored chunk is a \<^verbatim>\<open>Document\<close>. The text splitter and the Chroma index are outside the
  repository: \<open>'db\<close> is whatever the index holds, and its three operations return a
  value or raise. An operation that raises leaves the index as it was.
\<close>

record document =
  page_content :: string
  doc_metadata :: raw

record 'db backend =
  split_text :: "string \<Rightarrow> string list"
  from_documents :: "document list \<Rightarrow> error + 'db"
  add_documents :: "'db \<Rightarrow> document list \<Rightarrow> error + 'db"
  similarity_search :: "'db \<Rightarrow> string \<Rightarrow> int \<Rightarrow> raw option \<Rightarrow> error + document list"

text \<open>
  The state of the services: the clock, the two fields of the \<^verbatim>\<open>VectorStore\<close> and the
  flag of the \<^verbatim>\<open>VectorContextService\<close>.
\<close>

record 'db service =
  clock :: nat
  vector_db :: "'db option"
  documents :: "document list"
  initialized :: bool

definition new_service :: "'db service" where
  "new_service = \<lparr>clock = 0, vector_db = None, documents = [], initialized = False\<rparr>"

text \<open>A computation on the clock, run inside a service.\<close>

definition on_clock :: "'a comp \<Rightarrow> ('a, 'db service) run" where
  "on_clock m = (\<lambda>st. case m (clock st) of (r, n') \<Rightarrow> (r, st\<lparr>clock := n'\<rparr>))"

text \<open>\<^verbatim>\<open>item.dict()\<close>.\<close>

definition opt_str :: "string option \<Rightarrow> pyval" where
  "opt_str v = (case v of None \<Rightarrow> PNone | Some s \<Rightarrow> PStr s)"

definition opt_time :: "time option \<Rightarrow> pyval" where
  "opt_time v = (case v of None \<Rightarrow> PNone | Some t \<Rightarrow> PDateTime t)"

fun payload_dict :: "payload \<Rightarrow> raw" where
  "payload_dict Plain = []"
| "payload_dict (Email subj sndr rcps d tid) =
     [(''subject'', PStr subj), (''sender'', PStr sndr), (''recipients'', PList (map PStr rcps)),
      (''date'', PDateTime d), (''thread_id'', opt_str tid)]"
| "payload_dict (Meeting ttl ps d dur mid) =
     [(''title'', PStr ttl), (''participants'', PList (map PStr ps)), (''date'', PDateTime d),
      (''duration'', PInt dur), (''meeting_id'', PStr mid)]"
| "payload_dict (Document ttl aus le pid) =
     [(''title'', PStr ttl), (''authors'', PList (map PStr aus)), (''last_edited'', PDateTime le),
      (''page_id'', PStr pid)]"
| "payload_dict (Opportunity nm stg amt cd acc own oid) =
     [(''name'', PStr nm), (''stage'', PStr stg),
      (''amount'', (case amt of None \<Rightarrow> PNone | Some a \<Rightarrow> PFloat a)),
      (''close_date'', opt_time cd), (''account_name'', PStr acc), (''owner_name'', PStr own),
      (''opportunity_id'', PStr oid)]"
| "payload_dict (Account nm ind web aid descr) =
     [(''name'', PStr nm), (''industry'', opt_str ind), (''website'', opt_str web),
      (''account_id'', PStr aid), (''description'', opt_str descr)]"
| "payload_dict (Contact nm em ph ttl acc cid) =
     [(''name'', PStr nm), (''email'', opt_str em), (''phone'', opt_str ph),
      (''title'', opt_str ttl), (''account_name'', opt_str acc), (''contact_id'', PStr cid)]"

definition item_dict :: "context_item \<Rightarrow> raw" where
  "item_dict x =
     [(''type'', PStr (ctype x)), (''source'', PStr (source x)), (''content'', PStr (content x)),
      (''metadata'', PDict (metadata x)), (''timestamp'', opt_time (timestamp x))]
     @ payload_dict (payload x)"

text \<open>The fields \<^verbatim>\<open>add_items\<close> copies into the metadata, by the item's type.\<close>

definition type_fields :: "raw \<Rightarrow> raw" where
  "type_fields item =
     (if dget item ''type'' = PStr ''email'' then
        [(''subject'', dget_default item ''subject'' (PStr '''')),
         (''sender'', dget_default item ''sender'' (PStr '''')),
         (''date'', dget_default item ''date'' (PStr ''''))]
      else if dget item ''type'' = PStr ''meeting'' then
        [(''title'', dget_default item ''title'' (PStr '''')),
         (''date'', dget_default item ''date'' (PStr ''''))]
      else if dget item ''type'' = PStr ''document'' then
        [(''title'', dget_default item ''title'' (PStr '''')),
         (''last_edited'', dget_default item ''last_edited'' (PStr ''''))]
      else if dget item ''type'' \<in> {PStr ''opportunity'', PStr ''account'', PStr ''contact''} then
        [(''name'', dget_default item ''name'' (PStr ''''))]
      else [])"

text \<open>\<^verbatim>\<open>enumerate(texts)\<close>: one document per chunk.\<close>

definition chunk_documents :: "raw \<Rightarrow> string list \<Rightarrow> document list" where
  "chunk_documents md texts =
     map (\<lambda>(i, text).
            \<lparr>page_content = text,
             doc_metadata = md @ [(''chunk'', PInt (int i)),
                                  (''total_chunks'', PInt (int (length texts)))]\<rparr>)
         (enumerate 0 texts)"

text \<open>The body of the loop of \<^verbatim>\<open>add_items\<close>: the documents of one item.\<close>

definition item_documents :: "pylib \<Rightarrow> 'db backend \<Rightarrow> raw \<Rightarrow> document list comp" where
  "item_documents L B item =
     (let c = dget_default item ''content'' (PStr '''') in
      if \<not> truthy c then ret []
      else
        bind (read_clock L) (\<lambda>t.
        bind (case c of PStr s \<Rightarrow> ret (split_text B s) | _ \<Rightarrow> raise TypeError) (\<lambda>texts.
        ret (chunk_documents
               ([(''source'', dget_default item ''source'' (PStr ''unknown'')),
                 (''type'', dget_default item ''type'' (PStr ''unknown'')),
                 (''id'', dget_default item ''id'' (PStr '''')),
                 (''timestamp'', PStr (isoformat L t))] @ type_fields item)
               texts))))"

fun make_documents :: "pylib \<Rightarrow> 'db backend \<Rightarrow> raw list \<Rightarrow> document list comp" where
  "make_documents L B [] = ret []"
| "make_documents L B (item # items) =
     bind (item_documents L B item) (\<lambda>ds.
     bind (make_documents L B items) (\<lambda>rest. ret (ds @ rest)))"

definition add_items :: "pylib \<Rightarrow> 'db backend \<Rightarrow> raw list \<Rightarrow> (unit, 'db service) run" where
  "add_items L B context_items' =
     bind (on_clock (make_documents L B context_items')) (\<lambda>docs st.
       let st1 = st\<lparr>documents := documents st @ docs\<rparr> in
       case vector_db st1 of
         None \<Rightarrow>
           (case from_documents B docs of
              Inl e \<Rightarrow> (Inl e, st1)
            | Inr db \<Rightarrow> (Inr (), st1\<lparr>vector_db := Some db\<rparr>))
       | Some db \<Rightarrow>
           (case add_documents B db docs of
              Inl e \<Rightarrow> (Inl e, st1)
            | Inr db' \<Rightarrow> (Inr (), st1\<lparr>vector_db := Some db'\<rparr>)))"

text \<open>The filter handed to the index: the allow-listed keys, or no filter.\<close>

definition filter_dict :: "raw \<Rightarrow> raw" where
  "filter_dict filter_criteria =
     filter (\<lambda>(k, v). k \<in> {''source'', ''type''}) filter_criteria"

definition search_filter :: "raw \<Rightarrow> raw option" where
  "search_filter filter_criteria =
     (if filter_dict filter_criteria = [] then None else Some (filter_dict filter_criteria))"

definition search_result :: "document \<Rightarrow> raw" where
  "search_result doc =
     [(''content'', PStr (page_content doc)),
      (''metadata'', PDict (doc_metadata doc)),
      (''score'', dget_default (doc_metadata doc) ''score'' (PFloat 0))]"

definition search :: "'db backend \<Rightarrow> 'db service \<Rightarrow> string \<Rightarrow> raw \<Rightarrow> int \<Rightarrow> raw list" where
  "search B st q filter_criteria k =
     (case vector_db st of
        None \<Rightarrow> []
      | Some db \<Rightarrow>
          if documents st = [] then []
          else (case similarity_search B db q k (search_filter filter_criteria) of
                  Inl e \<Rightarrow> []
                | Inr results \<Rightarrow> map search_result results))"

section \<open>The Retrieval Orchestrator (services/vector\_context\_service.py)\<close>

definition bootstrap_request :: "int \<Rightarrow> context_request" where
  "bootstrap_request days_back =
     \<lparr>query = None, time_range = Some [(''days_back'', PInt days_back)],
      sources = Some [''zoom'', ''gmail'', ''notion'', ''salesforce''],
      limit = Some 100, entity_focus = None\<rparr>"

definition initialize :: "pylib \<Rightarrow> clients \<Rightarrow> 'db backend \<Rightarrow> int \<Rightarrow> (unit, 'db service) run"
  where
  "initialize L C B days_back =
     (\<lambda>st.
        if initialized st then (Inr (), st)
        else
          bind (on_clock (get_context L C (bootstrap_request days_back))) (\<lambda>response.
          bind (add_items L B (map item_dict (context_items response))) (\<lambda>u st'.
          (Inr (), st'\<lparr>initialized := True\<rparr>))) st)"

text \<open>\<^verbatim>\<open>if not self.initialized: await self.initialize()\<close>.\<close>

definition ensure_initialized :: "pylib \<Rightarrow> clients \<Rightarrow> 'db backend \<Rightarrow> (unit, 'db service) run"
  where
  "ensure_initialized L C B =
     (\<lambda>st. if \<not> initialized st then initialize L C B 30 st else (Inr (), st))"

text \<open>\<^verbatim>\<open>filter_criteria\<close> as the orchestrator builds it from \<^verbatim>\<open>request.sources\<close>.\<close>

definition filter_criteria_of :: "context_request \<Rightarrow> raw" where
  "filter_criteria_of req =
     (case sources req of
        None \<Rightarrow> []
      | Some ss \<Rightarrow>
          if ss = [] then []
          else [(''source'', (case ss of [s] \<Rightarrow> PStr s | _ \<Rightarrow> PNone))])"

text \<open>One search hit back into a \<^verbatim>\<open>ContextItem\<close>.\<close>

definition result_metadata :: "raw \<Rightarrow> raw" where
  "result_metadata result =
     (case dget_default result ''metadata'' (PDict []) of PDict md \<Rightarrow> md | _ \<Rightarrow> [])"

definition result_item :: "pylib \<Rightarrow> raw \<Rightarrow> context_item option comp" where
  "result_item L result =
     (let md = result_metadata result in
      bind (ContextItem L
              (dget_default md ''type'' (PStr ''unknown''))
              (dget_default md ''source'' (PStr ''unknown''))
              (dget_default result ''content'' (PStr ''''))
              (AList.update ''vector_score'' (dget_default result ''score'' (PFloat 0)) md))
        (\<lambda>it. ret (Some it)))"

text \<open>
  \<^verbatim>\<open>request.time_range and request.time_range.get("include_fresh", False)\<close>.
\<close>

definition include_fresh :: "context_request \<Rightarrow> bool" where
  "include_fresh req =
     (case time_range req of
        None \<Rightarrow> False
      | Some tr \<Rightarrow> tr \<noteq> [] \<and> truthy (dget_default tr ''include_fresh'' (PBool False)))"

text \<open>
  The ids of the vector items: the values of \<^verbatim>\<open>metadata["id"]\<close> that are true. They are
  put into a \<^verbatim>\<open>set\<close>, which raises for a list or a dictionary.
\<close>

fun hashable :: "pyval \<Rightarrow> bool" where
  "hashable (PList xs) = False"
| "hashable (PDict d) = False"
| "hashable v = True"

definition existing_ids :: "context_item list \<Rightarrow> pyval list" where
  "existing_ids items =
     map (\<lambda>x. dget_default (metadata x) ''id'' (PStr ''''))
       (filter (\<lambda>x. truthy (dget (metadata x) ''id'')) items)"

text \<open>
  The id the merge reads from a fresh item: the first of \<^verbatim>\<open>thread_id\<close>,
  \<^verbatim>\<open>meeting_id\<close> and \<^verbatim>\<open>page_id\<close> the item has, and the empty string for an item that has
  none of them.
\<close>

fun natural_id :: "payload \<Rightarrow> pyval" where
  "natural_id (Email subj sndr rcps d tid) = opt_str tid"
| "natural_id (Meeting ttl ps d dur mid) = PStr mid"
| "natural_id (Document ttl aus le pid) = PStr pid"
| "natural_id p = PStr ''''"

text \<open>The loop that appends the fresh items; \<open>seen\<close> is \<^verbatim>\<open>existing_ids\<close>.\<close>

fun merge_fresh :: "pyval list \<Rightarrow> context_item list \<Rightarrow> context_item list" where
  "merge_fresh seen [] = []"
| "merge_fresh seen (x # xs) =
     (let item_id = natural_id (payload x) in
      if truthy item_id \<and> item_id \<notin> set seen
      then x # merge_fresh (item_id # seen) xs
      else merge_fresh seen xs)"

definition vector_get_context :: "pylib \<Rightarrow> clients \<Rightarrow> 'db backend \<Rightarrow> context_request
    \<Rightarrow> (context_response, 'db service) run" where
  "vector_get_context L C B req =
     bind (ensure_initialized L C B) (\<lambda>u.
     if \<not> has_query (query req) then on_clock (get_context L C req)
     else
       (\<lambda>st.
          let vector_results =
                search B st (query_text (query req)) (filter_criteria_of req)
                  (or_default (limit req) 10)
          in
            if vector_results = [] then on_clock (get_context L C req) st
            else
              bind (on_clock (for_each (result_item L) vector_results)) (\<lambda>vector_items.
              bind (if include_fresh req
                    then bind (on_clock (get_context L C req)) (\<lambda>fresh_response.
                           if list_all hashable (existing_ids vector_items)
                           then ret (vector_items
                                     @ merge_fresh (existing_ids vector_items)
                                         (context_items fresh_response))
                           else raise TypeError)
                    else ret vector_items) (\<lambda>items.
              bind (on_clock (read_clock L)) (\<lambda>ts.
              ret \<lparr>rsource = ''vibecoding-mcp-vector'',
                   context_items = items,
                   rquery = query req,
                   rtimestamp = ts\<rparr>))) st))"

definition add_to_index :: "pylib \<Rightarrow> 'db backend \<Rightarrow> context_item list \<Rightarrow> (unit, 'db service) run"
  where
  "add_to_index L B items = add_items L B (map item_dict items)"

section \<open>The endpoint (main.py)\<close>

text \<open>
  The body of \<^verbatim>\<open>POST /context\<close> after the permission check: the choice between the two
  services, and the write into the index on the branch that does not use the vector
  service. The handler around it, which answers an exception with the status 500, is
  left out: the exception is the result.
\<close>

definition context_endpoint :: "pylib \<Rightarrow> clients \<Rightarrow> 'db backend \<Rightarrow> context_request
    \<Rightarrow> (context_response, 'db service) run" where
  "context_endpoint L C B req =
     (if query req \<noteq> None then vector_get_context L C B req
      else
        bind (on_clock (get_context L C req)) (\<lambda>context_response.
        bind (add_to_index L B (context_items context_response)) (\<lambda>u.
        ret context_response)))"

section \<open>A small world to run the code in\<close>

text \<open>
  A clock that advances by ten at every reading, parsers that know one date each, and
  four sources: Zoom with two transcripts, Gmail with one recent email and one email
  that matches a search, Notion out of service, and Salesforce whose most recently
  modified account is \<open>002YY\<close>.
\<close>

definition lib0 :: pylib where
  "lib0 =
     \<lparr>now = (\<lambda>i. 1000 + 10 * i),
      str_of = (\<lambda>v. ''?''),
      int_of = (\<lambda>v. None),
      float_of = (\<lambda>v. None),
      lower = (\<lambda>s. s),
      fromisoformat = (\<lambda>s. if s = ''2024-01-01'' then Some 500 else None),
      strptime_rfc = (\<lambda>s. None),
      strptime_ymd = (\<lambda>s. None),
      isoformat = (\<lambda>t. ''t'')\<rparr>"

definition transcript1 :: raw where
  "transcript1 = [(''meeting_id'', PStr ''m1''), (''transcript'', PStr ''plan''),
                  (''duration'', PInt 30)]"

definition transcript2 :: raw where
  "transcript2 = [(''meeting_id'', PStr ''m2''), (''transcript'', PStr ''demo''),
                  (''duration'', PInt 45)]"

definition email1 :: raw where
  "email1 = [(''id'', PStr ''e1''), (''thread_id'', PStr ''t1''), (''subject'', PStr ''hi''),
             (''from'', PStr ''ann''), (''to'', PStr ''bob''), (''date'', PStr ''Unknown''),
             (''body'', PStr ''offer'')]"

definition email2 :: raw where
  "email2 = [(''id'', PStr ''e2''), (''thread_id'', PStr ''t2''), (''subject'', PStr ''re''),
             (''from'', PStr ''bob''), (''to'', PStr ''ann''), (''date'', PStr ''Unknown''),
             (''body'', PStr ''deal'')]"

definition account1 :: raw where
  "account1 = [(''Id'', PStr ''002YY''), (''Name'', PStr ''Acme''),
               (''Description'', PStr ''maker'')]"

definition contact1 :: raw where
  "contact1 = [(''Id'', PStr ''c1''), (''FirstName'', PStr ''Cy''), (''LastName'', PStr ''Lee''),
               (''AccountId'', PStr ''001XX'')]"

definition clients0 :: clients where
  "clients0 =
     \<lparr>zoom_get_recent_meeting_transcripts = (\<lambda>days k. Inr [transcript1, transcript2]),
      gmail_search_emails = (\<lambda>s k. Inr [email2]),
      gmail_get_recent_emails = (\<lambda>days k. Inr [email1]),
      notion_search_pages = (\<lambda>s k. Inl (AdapterError ''down'')),
      notion_get_database_pages = (\<lambda>k. Inl (AdapterError ''down'')),
      notion_get_page_content = (\<lambda>p. Inl (AdapterError ''down'')),
      sf_get_accounts = (\<lambda>k. Inr [account1]),
      sf_get_contacts = (\<lambda>a k. Inr [contact1]),
      sf_get_opportunities = (\<lambda>days k. Inr [])\<rparr>"

text \<open>
  An index that is the list of its documents; a search returns the first \<open>k\<close> stored
  documents that carry every key of the filter with the filter's value.
\<close>

definition matches :: "raw option \<Rightarrow> document \<Rightarrow> bool" where
  "matches f d =
     (case f of None \<Rightarrow> True
      | Some cs \<Rightarrow> list_all (\<lambda>(k, v). map_of (doc_metadata d) k = Some v) cs)"

definition list_backend :: "document list backend" where
  "list_backend =
     \<lparr>split_text = (\<lambda>s. [s]),
      from_documents = (\<lambda>ds. Inr ds),
      add_documents = (\<lambda>db ds. Inr (db @ ds)),
      similarity_search = (\<lambda>db q k f. Inr (take (nat k) (filter (matches f) db)))\<rparr>"

definition request0 :: context_request where
  "request0 = \<lparr>query = None, time_range = None, sources = None, limit = Some 10,
               entity_focus = None\<rparr>"

text \<open>
  A second world: nothing anywhere but one email that Gmail finds by search. A request
  with a query, and the service as the bootstrap leaves it in this world.
\<close>

definition clients1 :: clients where
  "clients1 =
     \<lparr>zoom_get_recent_meeting_transcripts = (\<lambda>days k. Inr []),
      gmail_search_emails = (\<lambda>s k. Inr [email2]),
      gmail_get_recent_emails = (\<lambda>days k. Inr []),
      notion_search_pages = (\<lambda>s k. Inr []),
      notion_get_database_pages = (\<lambda>k. Inr []),
      notion_get_page_content = (\<lambda>p. Inl (AdapterError ''down'')),
      sf_get_accounts = (\<lambda>k. Inr []),
      sf_get_contacts = (\<lambda>a k. Inr []),
      sf_get_opportunities = (\<lambda>days k. Inr [])\<rparr>"

definition request1 :: context_request where
  "request1 = \<lparr>query = Some ''deal'', time_range = None, sources = None, limit = Some 10,
               entity_focus = None\<rparr>"


text \<open>
  A request with a query, a limit of one and \<^verbatim>\<open>include_fresh\<close>; a request with a query
  and two sources; and a request that puts the account \<open>001XX\<close> in focus.
\<close>

definition request2 :: context_request where
  "request2 = \<lparr>query = Some ''plan'', time_range = Some [(''include_fresh'', PBool True)],
               sources = None, limit = Some 1, entity_focus = None\<rparr>"

definition request3 :: context_request where
  "request3 = \<lparr>query = Some ''plan'', time_range = None,
               sources = Some [''zoom'', ''gmail''], limit = Some 10, entity_focus = None\<rparr>"

definition request4 :: context_request where
  "request4 = \<lparr>query = None, time_range = None, sources = None, limit = Some 10,
               entity_focus = Some [(''account_id'', PStr ''001XX'')]\<rparr>"

text \<open>
  An email whose record had no \<^verbatim>\<open>thread_id\<close>, as the Gmail pipeline builds it, and an
  item as \<^verbatim>\<open>add_items\<close> receives it. The index after one and after two calls of
  \<^verbatim>\<open>add_items\<close> with that item.
\<close>

definition email_without_thread :: context_item where
  "email_without_thread =
     mk_item ''email'' ''gmail'' ''deal'' [(''source'', PStr ''gmail''), (''id'', PStr ''e3'')]
       1140 (Email ''re'' ''bob'' [''ann''] 1130 (Some ''''))"

definition item0 :: raw where
  "item0 = [(''type'', PStr ''meeting''), (''source'', PStr ''zoom''),
            (''content'', PStr ''plan''), (''title'', PStr ''kickoff'')]"

definition added_once :: "document list service" where
  "added_once = snd (add_items lib0 list_backend [item0] new_service)"

definition added_twice :: "document list service" where
  "added_twice = snd (add_items lib0 list_backend [item0] added_once)"

definition contents :: "raw list \<Rightarrow> pyval list" where
  "contents results = map (\<lambda>r. dget r ''content'') results"







section \<open>Reasoning about computations\<close>

text \<open>\<open>post m Q\<close>: every value that the computation \<open>m\<close> returns satisfies \<open>Q\<close>.\<close>

definition post :: "('a, 's) run \<Rightarrow> ('a \<Rightarrow> bool) \<Rightarrow> bool" where
  "post m Q = (\<forall>n x n'. m n = (Inr x, n') \<longrightarrow> Q x)"


definition stamped :: "context_item \<Rightarrow> bool" where
  "stamped x = (timestamp x \<noteq> None)"

section \<open>A source whose fetch fails\<close>



text \<open>\<open>stamps_now L m\<close>: the item that \<open>m\<close> constructs carries the clock reading made by \<open>m\<close>.\<close>

definition stamps_now :: "pylib \<Rightarrow> context_item comp \<Rightarrow> bool" where
  "stamps_now L m = (\<forall>n x k. m n = (Inr x, k) \<longrightarrow> timestamp x = Some (now L n) \<and> k = Suc n)"

section \<open>The chunks of a list of items\<close>

text \<open>
  The texts of the chunks that \<^verbatim>\<open>add_items\<close> makes of one item, and of a list of items:
  what the splitter returns for every content that is not empty.
\<close>

definition item_texts :: "'db backend \<Rightarrow> raw \<Rightarrow> string list" where
  "item_texts B item =
     (case dget_default item ''content'' (PStr '''') of
        PStr s \<Rightarrow> if s = [] then [] else split_text B s
      | _ \<Rightarrow> [])"

definition chunk_texts :: "'db backend \<Rightarrow> raw list \<Rightarrow> string list" where
  "chunk_texts B items = concat (map (item_texts B) items)"

section \<open>Computations: basic facts\<close>

lemma bind_Inr:
  "bind m f n = (Inr y, n') \<longleftrightarrow> (\<exists>x k. m n = (Inr x, k) \<and> f x k = (Inr y, n'))"
  by (auto simp: bind_def split: prod.splits sum.splits)

lemma bind_Inl:
  "bind m f n = (Inl e, n') \<longleftrightarrow>
     (m n = (Inl e, n') \<or> (\<exists>x k. m n = (Inr x, k) \<and> f x k = (Inl e, n')))"
  by (auto simp: bind_def split: prod.splits sum.splits)

lemma ret_eq: "ret x n = (r, n') \<longleftrightarrow> Inr x = r \<and> n' = n"
  by (auto simp: ret_def)

lemma lift_eq: "lift r n = (r', n') \<longleftrightarrow> r = r' \<and> n' = n"
  by (auto simp: lift_def)

lemma read_clock_eq: "read_clock L n = (r, n') \<longleftrightarrow> r = Inr (now L n) \<and> n' = Suc n"
  by (auto simp: read_clock_def)

section \<open>The merge: sorting and truncation\<close>

lemma sorted_sort_reverse:
  "sorted_wrt (\<lambda>a b. k b \<le> k a) (sort_reverse k xs)"
proof -
  have "sorted (map (\<lambda>x. - int (k x)) (sort_reverse k xs))"
    unfolding sort_reverse_def by (rule sorted_sort_key)
  then show ?thesis
    by (simp add: sorted_map sorted_wrt_iff_nth_less)
qed

lemma stable_sort_reverse:
  "filter (\<lambda>x. k x = t) (sort_reverse k xs) = filter (\<lambda>x. k x = t) xs"
proof -
  have "filter (\<lambda>x. - int (k x) = - int t) (sort_reverse k xs)
      = filter (\<lambda>x. - int (k x) = - int t) xs"
    unfolding sort_reverse_def by (rule sort_key_stable)
  then show ?thesis by simp
qed

lemma set_sort_reverse: "set (sort_reverse k xs) = set xs"
  by (simp add: sort_reverse_def)

lemma length_sort_reverse: "length (sort_reverse k xs) = length xs"
  by (simp add: sort_reverse_def)

lemma apply_limit_prefix: "prefix (apply_limit xs l) xs"
  by (auto simp: apply_limit_def slice_to_def take_is_prefix split: option.splits)

lemma sorted_wrt_prefix: "prefix xs ys \<Longrightarrow> sorted_wrt P ys \<Longrightarrow> sorted_wrt P xs"
  by (auto simp: prefix_def sorted_wrt_append)

lemma sort_key_absent:
  "timestamp x = None \<Longrightarrow> sort_key_of x = datetime_min \<and> sort_key_of x \<le> sort_key_of y"
  by (simp add: sort_key_of_def datetime_min_def)

lemma get_context_Inr:
  "get_context L C req n = (Inr resp, n') \<longleftrightarrow>
     (\<exists>d arrived m. days_back_of L req = Inr d \<and> collect L C req d n = (Inr arrived, m) \<and>
        n' = Suc m \<and>
        resp = \<lparr>rsource = ''vibecoding-mcp'',
                context_items = apply_limit (sort_reverse sort_key_of arrived) (limit req),
                rquery = query req, rtimestamp = now L m\<rparr>)"
  unfolding get_context_def
  by (auto simp: bind_Inr ret_eq lift_eq read_clock_eq)

lemma get_context_request0:
  "case get_context lib0 clients0 request0 0 of
     (Inr resp, n) \<Rightarrow>
       map sort_key_of (context_items resp) = [1050, 1030, 1010] \<and>
       map timestamp (context_items resp) = [Some 1050, Some 1030, Some 1010] \<and> n = 7
   | (Inl e, n) \<Rightarrow> False"
  by code_simp

text \<open>
  C1. Whenever \<open>get_context\<close> of the Aggregation Engine returns a response, its
  \<open>context_items\<close> are in descending order of the sort key, which is the timestamp and
  \<^verbatim>\<open>datetime.min\<close> for an item without one; and the items of any one key stand in the
  order in which the fan-out collected them (Zoom, Gmail, Notion, Salesforce): they are
  a prefix of the collected items of that key. No source has to succeed for this.
\<close>

theorem get_context_sorted:
  assumes "get_context L C req n = (Inr resp, n')"
  shows "sorted_wrt (\<lambda>a b. sort_key_of b \<le> sort_key_of a) (context_items resp) \<and>
         (\<exists>d arrived m. days_back_of L req = Inr d \<and>
            collect L C req d n = (Inr arrived, m) \<and>
            (\<forall>t. prefix (filter (\<lambda>x. sort_key_of x = t) (context_items resp))
                        (filter (\<lambda>x. sort_key_of x = t) arrived)))"
proof -
  from assms obtain d arrived m where
    d: "days_back_of L req = Inr d" and
    c: "collect L C req d n = (Inr arrived, m)" and
    r: "context_items resp = apply_limit (sort_reverse sort_key_of arrived) (limit req)"
    by (auto simp: get_context_Inr)
  let ?S = "sort_reverse sort_key_of arrived"
  have p: "prefix (context_items resp) ?S"
    unfolding r by (rule apply_limit_prefix)
  have "sorted_wrt (\<lambda>a b. sort_key_of b \<le> sort_key_of a) (context_items resp)"
    using p sorted_sort_reverse by (rule sorted_wrt_prefix)
  moreover have "prefix (filter (\<lambda>x. sort_key_of x = t) (context_items resp))
                        (filter (\<lambda>x. sort_key_of x = t) arrived)" for t
    using filter_mono_prefix[OF p, of "\<lambda>x. sort_key_of x = t"]
    by (simp add: stable_sort_reverse)
  ultimately show ?thesis using d c by blast
qed

theorem get_context_sorted_witness:
  "\<exists>resp n'. get_context lib0 clients0 request0 0 = (Inr resp, n') \<and>
     map sort_key_of (context_items resp) = [1050, 1030, 1010] \<and>
     sorted_wrt (\<lambda>a b. sort_key_of b \<le> sort_key_of a) (context_items resp)"
proof -
  obtain resp n' where
    h: "get_context lib0 clients0 request0 0 = (Inr resp, n')" and
    k: "map sort_key_of (context_items resp) = [1050, 1030, 1010]"
    using get_context_request0
    by (cases "get_context lib0 clients0 request0 0") (auto split: sum.splits)
  have s: "sorted_wrt (\<lambda>a b. sort_key_of b \<le> sort_key_of a) (context_items resp)"
    using get_context_sorted[OF h] by (rule conjunct1)
  show ?thesis
    using h k s by (intro exI conjI)
qed

section \<open>Every pipeline item carries a timestamp\<close>

lemma post_ret: "Q x \<Longrightarrow> post (ret x) Q"
  by (simp add: post_def ret_def)

lemma post_raise: "post (raise e) Q"
  by (simp add: post_def raise_def)

lemma post_bind: "post m P \<Longrightarrow> (\<And>x. P x \<Longrightarrow> post (f x) Q) \<Longrightarrow> post (bind m f) Q"
  unfolding post_def bind_Inr by blast

lemma post_bind_any: "(\<And>x. post (f x) Q) \<Longrightarrow> post (bind m f) Q"
  unfolding post_def bind_Inr by blast

lemma post_bind_Some:
  "post m P \<Longrightarrow> post (bind m (\<lambda>it. ret (Some it))) (\<lambda>r. \<forall>y. r = Some y \<longrightarrow> P y)"
  unfolding post_def bind_Inr ret_eq by blast

lemma post_catch: "post m Q \<Longrightarrow> (\<And>e. post (h e) Q) \<Longrightarrow> post (catch m h) Q"
  unfolding post_def catch_def by (auto split: prod.splits sum.splits)

lemma post_isolated:
  "post (f r) (\<lambda>x. \<forall>y. x = Some y \<longrightarrow> P y) \<Longrightarrow> post (isolated f r) (\<lambda>x. \<forall>y. x = Some y \<longrightarrow> P y)"
  unfolding isolated_def by (rule post_catch) (simp_all add: post_ret)

lemma post_for_each:
  assumes "\<And>r. post (f r) (\<lambda>x. \<forall>y. x = Some y \<longrightarrow> P y)"
  shows "post (for_each f rs) (\<lambda>xs. \<forall>y\<in>set xs. P y)"
proof (induction rs)
  case Nil
  show ?case by (simp add: post_ret)
next
  case (Cons r rs)
  show ?case
    unfolding for_each.simps
  proof (rule post_bind[OF assms], rule post_bind[OF Cons.IH], rule post_ret)
    fix x xs
    assume "\<forall>y. x = Some y \<longrightarrow> P y" and "\<forall>y\<in>set xs. P y"
    then show "\<forall>y\<in>set (case x of None \<Rightarrow> xs | Some y \<Rightarrow> y # xs). P y"
      by (cases x) auto
  qed
qed

lemma post_mk:
  "post (bind (read_clock L) (\<lambda>ts. g ts)) Q"
  if "\<And>ts. post (g ts) Q"
  using that by (rule post_bind_any)


lemma stamped_mk [simp]: "stamped (mk_item ty src c md ts p)"
  by (simp add: stamped_def mk_item_def)

lemma post_MeetingContext: "post (MeetingContext L c ttl ps d dur mid md) stamped"
  unfolding MeetingContext_def by (intro post_bind_any post_ret stamped_mk)

lemma post_EmailContext: "post (EmailContext L c subj sndr rcp d tid md) stamped"
  unfolding EmailContext_def by (intro post_bind_any post_ret stamped_mk)

lemma post_DocumentContext: "post (DocumentContext L c ttl aus le pid md) stamped"
  unfolding DocumentContext_def by (intro post_bind_any post_ret stamped_mk)

lemma post_OpportunityContext: "post (OpportunityContext L c nm stg amt cd acc own oid md) stamped"
  unfolding OpportunityContext_def by (intro post_bind_any post_ret stamped_mk)

lemma post_AccountContext: "post (AccountContext L c nm ind web aid md) stamped"
  unfolding AccountContext_def by (intro post_bind_any post_ret stamped_mk)

lemma post_ContactContext: "post (ContactContext L c nm em ph ttl acc cid md) stamped"
  unfolding ContactContext_def by (intro post_bind_any post_ret stamped_mk)

lemma post_ContextItem: "post (ContextItem L ty src c md) stamped"
  unfolding ContextItem_def by (intro post_bind_any post_ret stamped_mk)

lemma post_None: "post (ret None) (\<lambda>r. \<forall>y. r = Some y \<longrightarrow> P y)"
  by (simp add: post_ret)

lemma post_if: "(b \<Longrightarrow> post m Q) \<Longrightarrow> (\<not> b \<Longrightarrow> post m' Q) \<Longrightarrow> post (if b then m else m') Q"
  by simp

lemma post_zoom_item: "post (zoom_item L q t) (\<lambda>r. \<forall>y. r = Some y \<longrightarrow> stamped y)"
  unfolding zoom_item_def
  by (intro post_bind_any post_if post_None post_bind_Some post_MeetingContext)

lemma post_gmail_item: "post (gmail_item L em) (\<lambda>r. \<forall>y. r = Some y \<longrightarrow> stamped y)"
  unfolding gmail_item_def
  by (intro post_bind_any post_bind_Some post_EmailContext)

lemma post_notion_item: "post (notion_item L C page) (\<lambda>r. \<forall>y. r = Some y \<longrightarrow> stamped y)"
  unfolding notion_item_def Let_def
  by (intro post_bind_any post_if post_None post_bind_Some post_DocumentContext)

lemma post_account_item: "post (account_item L a) (\<lambda>r. \<forall>y. r = Some y \<longrightarrow> stamped y)"
  unfolding account_item_def
  by (intro post_bind_Some post_AccountContext)

lemma post_contact_item: "post (contact_item L a) (\<lambda>r. \<forall>y. r = Some y \<longrightarrow> stamped y)"
  unfolding contact_item_def Let_def
  by (intro post_bind_any post_bind_Some post_ContactContext)

lemma post_opportunity_item:
  "post (opportunity_item L q a) (\<lambda>r. \<forall>y. r = Some y \<longrightarrow> stamped y)"
  unfolding opportunity_item_def
  by (intro post_bind_any post_if post_None post_bind_Some post_OpportunityContext)

lemma post_nil: "post (ret []) (\<lambda>xs. \<forall>y\<in>set xs. P y)"
  by (simp add: post_ret)

lemma post_zoom: "post (get_zoom_context L C q d l) (\<lambda>xs. \<forall>y\<in>set xs. stamped y)"
  unfolding get_zoom_context_def
  by (intro post_catch post_bind_any post_for_each post_zoom_item post_nil)

lemma post_gmail: "post (get_gmail_context L C q d l) (\<lambda>xs. \<forall>y\<in>set xs. stamped y)"
  unfolding get_gmail_context_def
  by (intro post_catch post_bind_any post_for_each post_isolated post_gmail_item post_nil)

lemma post_notion: "post (get_notion_context L C q l) (\<lambda>xs. \<forall>y\<in>set xs. stamped y)"
  unfolding get_notion_context_def
  by (intro post_catch post_bind_any post_for_each post_isolated post_notion_item post_nil)

lemma post_salesforce:
  "post (get_salesforce_context L C q ef d l) (\<lambda>xs. \<forall>y\<in>set xs. stamped y)"
proof -
  have a: "post (for_each (account_item L) as) (\<lambda>xs. \<forall>y\<in>set xs. stamped y)" for as
    by (intro post_for_each post_account_item)
  have c: "post (for_each (contact_item L) cs) (\<lambda>xs. \<forall>y\<in>set xs. stamped y)" for cs
    by (intro post_for_each post_contact_item)
  have ac: "post (bind (for_each (account_item L) as) (\<lambda>xs.
              bind (for_each (contact_item L) cs) (\<lambda>ys. ret (xs @ ys))))
            (\<lambda>xs. \<forall>y\<in>set xs. stamped y)" for as cs
    by (rule post_bind[OF a], rule post_bind[OF c], rule post_ret) auto
  show ?thesis
    unfolding get_salesforce_context_def
    by (cases "focus_account ef")
       (auto intro!: post_catch post_bind_any post_for_each post_opportunity_item post_nil ac)
qed

lemma post_from_source: "post (from_source L C req d s) (\<lambda>xs. \<forall>y\<in>set xs. stamped y)"
  unfolding from_source_def
  by (cases s) (auto intro: post_zoom post_gmail post_notion post_salesforce post_nil)

lemma post_collect: "post (collect L C req d) (\<lambda>xs. \<forall>y\<in>set xs. stamped y)"
  unfolding collect_def
  apply (rule post_bind[OF post_from_source])
  apply (rule post_bind[OF post_from_source])
  apply (rule post_bind[OF post_from_source])
  apply (rule post_bind[OF post_from_source])
  apply (rule post_ret)
  apply auto
  done


lemma stamps_now_mk:
  "stamps_now L (bind (read_clock L) (\<lambda>ts. g ts))"
  if "\<And>ts. post (g ts) (\<lambda>x. timestamp x = Some ts)" "\<And>ts n r k. g ts n = (r, k) \<Longrightarrow> k = n"
  unfolding stamps_now_def bind_Inr read_clock_eq
  using that unfolding post_def by blast

lemma lift_bind_state: "bind (lift r) f n = (y, k) \<Longrightarrow> (\<And>x. f x n = (y, k) \<Longrightarrow> k = n) \<Longrightarrow> k = n"
  by (auto simp: bind_def lift_def split: sum.splits)

lemma ret_state: "ret x n = (y, k) \<Longrightarrow> k = n"
  by (simp add: ret_def)

lemma timestamp_mk [simp]: "timestamp (mk_item ty src c md ts p) = Some ts"
  by (simp add: mk_item_def)

lemma stamps_ContextItem: "stamps_now L (ContextItem L ty src c md)"
  unfolding ContextItem_def
  by (rule stamps_now_mk) (auto intro!: post_bind_any post_ret elim!: lift_bind_state ret_state)

lemma stamps_MeetingContext: "stamps_now L (MeetingContext L c ttl ps d dur mid md)"
  unfolding MeetingContext_def
  by (rule stamps_now_mk) (auto intro!: post_bind_any post_ret elim!: lift_bind_state ret_state)

lemma stamps_EmailContext: "stamps_now L (EmailContext L c subj sndr rcp d tid md)"
  unfolding EmailContext_def
  by (rule stamps_now_mk) (auto intro!: post_bind_any post_ret elim!: lift_bind_state ret_state)

lemma stamps_DocumentContext: "stamps_now L (DocumentContext L c ttl aus le pid md)"
  unfolding DocumentContext_def
  by (rule stamps_now_mk) (auto intro!: post_bind_any post_ret elim!: lift_bind_state ret_state)

lemma stamps_OpportunityContext:
  "stamps_now L (OpportunityContext L c nm stg amt cd acc own oid md)"
  unfolding OpportunityContext_def
  by (rule stamps_now_mk) (auto intro!: post_bind_any post_ret elim!: lift_bind_state ret_state)

lemma stamps_AccountContext: "stamps_now L (AccountContext L c nm ind web aid md)"
  unfolding AccountContext_def
  by (rule stamps_now_mk) (auto intro!: post_bind_any post_ret elim!: lift_bind_state ret_state)

lemma stamps_ContactContext: "stamps_now L (ContactContext L c nm em ph ttl acc cid md)"
  unfolding ContactContext_def
  by (rule stamps_now_mk) (auto intro!: post_bind_any post_ret elim!: lift_bind_state ret_state)

lemma set_apply_limit: "set (apply_limit xs l) \<subseteq> set xs"
  using apply_limit_prefix by (rule set_mono_prefix)

lemma sort_key_stamped: "stamped x \<Longrightarrow> timestamp x = Some (sort_key_of x)"
  by (auto simp: stamped_def sort_key_of_def)

text \<open>
  C10. Each of the seven constructors, called without a \<^verbatim>\<open>timestamp\<close> as every caller
  does, reads the clock once and stores the reading as the item's timestamp. So every
  item that the fan-out collects has a timestamp, and for every item of a response of
  \<open>get_context\<close> the sort key is the timestamp itself: the \<^verbatim>\<open>datetime.min\<close> branch of the
  key is never taken.
\<close>

theorem timestamp_always_present:
  "stamps_now L (ContextItem L ty src c md) \<and>
   stamps_now L (EmailContext L c' subj sndr rcp d1 tid md) \<and>
   stamps_now L (MeetingContext L c' ttl ps d2 dur mid md) \<and>
   stamps_now L (DocumentContext L c'' ttl aus le pid md) \<and>
   stamps_now L (OpportunityContext L c'' nm stg amt cd acc own oid md) \<and>
   stamps_now L (AccountContext L c' nm ind web aid md) \<and>
   stamps_now L (ContactContext L c'' nm' em ph ttl' acc' cid md) \<and>
   (collect L C req d n = (Inr items, m) \<longrightarrow> (\<forall>x\<in>set items. timestamp x \<noteq> None)) \<and>
   (get_context L C req n = (Inr resp, n') \<longrightarrow>
      (\<forall>x\<in>set (context_items resp). timestamp x = Some (sort_key_of x)))"
proof -
  have col: "\<forall>x\<in>set items. stamped x" if "collect L C req d n = (Inr items, m)" for d items m
    using post_collect that unfolding post_def by blast
  have A: "get_context L C req n = (Inr resp, n') \<longrightarrow>
      (\<forall>x\<in>set (context_items resp). timestamp x = Some (sort_key_of x))"
  proof
    assume h: "get_context L C req n = (Inr resp, n')"
    from h obtain d arrived m where
      c: "collect L C req d n = (Inr arrived, m)" and
      r: "context_items resp = apply_limit (sort_reverse sort_key_of arrived) (limit req)"
      by (auto simp: get_context_Inr)
    have "set (context_items resp) \<subseteq> set arrived"
      unfolding r using set_apply_limit[of "sort_reverse sort_key_of arrived"]
      by (simp add: set_sort_reverse)
    with col[OF c] show "\<forall>x\<in>set (context_items resp). timestamp x = Some (sort_key_of x)"
      by (auto intro: sort_key_stamped)
  qed
  have B: "collect L C req d n = (Inr items, m) \<longrightarrow> (\<forall>x\<in>set items. timestamp x \<noteq> None)"
    using col[of d items m] by (simp add: stamped_def)
  show ?thesis
    by (intro conjI stamps_ContextItem stamps_EmailContext stamps_MeetingContext
          stamps_DocumentContext stamps_OpportunityContext stamps_AccountContext
          stamps_ContactContext A B)
qed

theorem timestamp_always_present_witness:
  "\<exists>resp n'. get_context lib0 clients0 request0 0 = (Inr resp, n') \<and>
     map timestamp (context_items resp) = [Some 1050, Some 1030, Some 1010] \<and>
     list_all (\<lambda>x. timestamp x = Some (sort_key_of x)) (context_items resp)"
proof -
  obtain resp n' where
    h: "get_context lib0 clients0 request0 0 = (Inr resp, n')" and
    k: "map timestamp (context_items resp) = [Some 1050, Some 1030, Some 1010]"
    using get_context_request0
    by (cases "get_context lib0 clients0 request0 0") (auto split: sum.splits)
  have "get_context lib0 clients0 request0 0 = (Inr resp, n') \<longrightarrow>
      (\<forall>x\<in>set (context_items resp). timestamp x = Some (sort_key_of x))"
    by (rule timestamp_always_present[where L = lib0 and C = clients0 and req = request0
          and n = 0 and resp = resp and n' = n',
          THEN conjunct2, THEN conjunct2, THEN conjunct2, THEN conjunct2,
          THEN conjunct2, THEN conjunct2, THEN conjunct2, THEN conjunct2])
  with h have s: "list_all (\<lambda>x. timestamp x = Some (sort_key_of x)) (context_items resp)"
    by (simp add: list_all_iff)
  show ?thesis
    using h k s by (intro exI conjI)
qed

section \<open>A failing source does not fail the request\<close>














section \<open>The orchestrator falls back to the Aggregation Engine\<close>





section \<open>Where the code departs from its documented behaviour\<close>

text \<open>
  C2. The limit of a request is documented as the maximum number of context items to
  return, and the Aggregation Engine truncates to it. The orchestrator does not: with
  \<^verbatim>\<open>include_fresh\<close> it appends the fresh items to the vector items and returns them all.
  Here the limit is 1 and the response has two items.
\<close>

theorem limit_exceeded_with_include_fresh:
  "case vector_get_context lib0 clients0 list_backend request2 new_service of
     (Inr resp, st) \<Rightarrow>
       limit request2 = Some 1 \<and> rsource resp = ''vibecoding-mcp-vector'' \<and>
       map content (context_items resp) = [''offer'', ''deal'']
   | (Inl e, st) \<Rightarrow> False"
  by code_simp

text \<open>
  C5. The endpoint writes the aggregated items into the index only on the branch taken
  when the request has no query. A request with a query goes to the orchestrator, and
  when that falls back to the Aggregation Engine the items of the response are not
  added: here the response has an item and the index is as empty as the bootstrap left
  it. The lemma after it shows the branch that does write.
\<close>

theorem fallback_response_not_indexed:
  "case context_endpoint lib0 clients1 list_backend request1 new_service of
     (Inr resp, st) \<Rightarrow>
       rsource resp = ''vibecoding-mcp'' \<and> map content (context_items resp) = [''deal''] \<and>
       documents st = [] \<and> vector_db st = Some []
   | (Inl e, st) \<Rightarrow> False"
  by code_simp

lemma endpoint_without_query_indexes:
  "case context_endpoint lib0 clients0 list_backend request0 new_service of
     (Inr resp, st) \<Rightarrow>
       map content (context_items resp) = [''offer'', ''demo'', ''plan''] \<and>
       map page_content (documents st) = [''offer'', ''demo'', ''plan'']
   | (Inl e, st) \<Rightarrow> False"
  by code_simp

text \<open>
  C6. For a request that lists two sources the orchestrator sets
  \<^verbatim>\<open>filter_criteria["source"]\<close> to \<^verbatim>\<open>None\<close>; the dictionary is not empty, so the index is
  searched with the filter \<^verbatim>\<open>{"source": None}\<close> and not without a filter. With an index
  that compares metadata to the filter nothing matches, and the request falls back to
  the Aggregation Engine although three documents are indexed.
\<close>

theorem multi_source_filter_is_not_absent:
  "search_filter (filter_criteria_of request3) = Some [(''source'', PNone)] \<and>
   (case vector_get_context lib0 clients0 list_backend request3 new_service of
      (Inr resp, st) \<Rightarrow> rsource resp = ''vibecoding-mcp'' \<and> length (documents st) = 3
    | (Inl e, st) \<Rightarrow> False)"
  by code_simp

text \<open>
  C8. With an account in focus the Salesforce pipeline fetches \<^verbatim>\<open>get_accounts(limit=1)\<close>,
  which does not take the account id: the account returned is the most recently
  modified one, here \<open>002YY\<close> for the requested \<open>001XX\<close>, and none when Salesforce has
  no account to return.
\<close>

theorem focus_account_is_not_the_requested_one:
  "(case get_salesforce_context lib0 clients0 (query request4) (entity_focus request4) 7
           (limit request4) 0 of
      (Inr xs, n) \<Rightarrow>
        map payload xs = [Account ''Acme'' None None ''002YY'' None,
                          Contact ''Cy Lee'' None None None None ''c1'']
    | (Inl e, n) \<Rightarrow> False) \<and>
   get_salesforce_context lib0 clients1 (query request4) (entity_focus request4) 7
     (limit request4) 0 = (Inr [], 0)"
  by code_simp

section \<open>Merging fresh items into the vector hits\<close>

lemma bind_InrE:
  assumes "bind m f n = (Inr y, n')"
  obtains x k where "m n = (Inr x, k)" and "f x k = (Inr y, n')"
  using assms unfolding bind_Inr by blast












section \<open>Adding the same items twice\<close>

lemma page_content_chunks: "map page_content (chunk_documents md texts) = texts"
proof -
  have "map page_content (chunk_documents md texts) = map snd (enumerate 0 texts)"
    unfolding chunk_documents_def by (simp add: case_prod_beta comp_def)
  then show ?thesis by simp
qed

lemma item_documents_texts:
  "item_documents L B item n = (Inr ds, n') \<Longrightarrow> map page_content ds = item_texts B item"
  unfolding item_documents_def item_texts_def Let_def
  by (cases "dget_default item ''content'' (PStr '''')")
     (auto simp: bind_Inr ret_eq read_clock_eq raise_def page_content_chunks split: if_splits)

lemma make_documents_texts:
  "make_documents L B items n = (Inr ds, n') \<Longrightarrow> map page_content ds = chunk_texts B items"
proof (induction items arbitrary: n ds n')
  case Nil
  then show ?case by (simp add: chunk_texts_def ret_eq[symmetric] ret_def)
next
  case (Cons item items)
  from Cons.prems obtain d1 k rest where
    a: "item_documents L B item n = (Inr d1, k)" and
    b: "make_documents L B items k = (Inr rest, n')" and
    c: "ds = d1 @ rest"
    by (auto simp: bind_Inr ret_eq)
  from item_documents_texts[OF a] Cons.IH[OF b] c show ?case
    by (simp add: chunk_texts_def)
qed

lemma add_items_Inr:
  assumes "add_items L B items st = (Inr (), st')"
  shows "\<exists>ds db. map page_content ds = chunk_texts B items \<and>
           documents st' = documents st @ ds \<and>
           vector_db st' = Some db \<and>
           (case vector_db st of
              None \<Rightarrow> from_documents B ds = Inr db
            | Some old \<Rightarrow> add_documents B old ds = Inr db)"
proof -
  from assms obtain ds st0 where
    m: "on_clock (make_documents L B items) st = (Inr ds, st0)" and
    rest: "(let st1 = st0\<lparr>documents := documents st0 @ ds\<rparr> in
       case vector_db st1 of
         None \<Rightarrow>
           (case from_documents B ds of
              Inl e \<Rightarrow> (Inl e, st1)
            | Inr db \<Rightarrow> (Inr (), st1\<lparr>vector_db := Some db\<rparr>))
       | Some db \<Rightarrow>
           (case add_documents B db ds of
              Inl e \<Rightarrow> (Inl e, st1)
            | Inr db' \<Rightarrow> (Inr (), st1\<lparr>vector_db := Some db'\<rparr>))) = (Inr (), st')"
    unfolding add_items_def by (rule bind_InrE)
  from m obtain k where mk: "make_documents L B items (clock st) = (Inr ds, k)"
    and s0: "st0 = st\<lparr>clock := k\<rparr>"
    by (auto simp: on_clock_def split: prod.splits)
  have t: "map page_content ds = chunk_texts B items"
    using mk by (rule make_documents_texts)
  from rest s0 have
    "\<exists>db. documents st' = documents st @ ds \<and> vector_db st' = Some db \<and>
       (case vector_db st of
          None \<Rightarrow> from_documents B ds = Inr db
        | Some old \<Rightarrow> add_documents B old ds = Inr db)"
    by (auto simp: Let_def split: option.splits sum.splits)
  with t show ?thesis by blast
qed

text \<open>
  C9, amended. \<^verbatim>\<open>add_items\<close> appends. When two calls with the same items return, the
  tracked documents are the old ones followed by the chunks of the items and by the same
  chunks again, and the second call has handed the index, through \<^verbatim>\<open>add_documents\<close>, one
  more document for every chunk, on top of the index the first call left. Nothing
  removes the second copy.
\<close>

theorem add_items_twice_appends_twice:
  assumes "add_items L B items st = (Inr (), st1)"
    and "add_items L B items st1 = (Inr (), st2)"
  shows "map page_content (documents st2)
           = map page_content (documents st) @ chunk_texts B items @ chunk_texts B items \<and>
         (\<exists>db1 ds2 db2. vector_db st1 = Some db1 \<and>
            map page_content ds2 = chunk_texts B items \<and>
            add_documents B db1 ds2 = Inr db2 \<and> vector_db st2 = Some db2)"
proof -
  from add_items_Inr[OF assms(1)] obtain ds1 db1 where
    a: "map page_content ds1 = chunk_texts B items"
       "documents st1 = documents st @ ds1" "vector_db st1 = Some db1"
    by blast
  from add_items_Inr[OF assms(2)] a(3) obtain ds2 db2 where
    b: "map page_content ds2 = chunk_texts B items"
       "documents st2 = documents st1 @ ds2" "vector_db st2 = Some db2"
       "add_documents B db1 ds2 = Inr db2"
    by auto
  from a b show ?thesis by auto
qed

text \<open>
  C9, as stated, fails: on an index that is the list of its documents, a search after
  one call of \<^verbatim>\<open>add_items\<close> returns the chunk once, and after a second call with the same
  item it returns the same hit twice.
\<close>

theorem add_items_twice_duplicates_hits:
  "contents (search list_backend added_once ''plan'' [] 5) = [PStr ''plan''] \<and>
   contents (search list_backend added_twice ''plan'' [] 5) = [PStr ''plan'', PStr ''plan''] \<and>
   search list_backend added_twice ''plan'' [] 5
     = search list_backend added_once ''plan'' [] 5 @ search list_backend added_once ''plan'' [] 5"
  by code_simp

lemma add_once: "add_items lib0 list_backend [item0] new_service = (Inr (), added_once)"
  by code_simp

lemma add_twice: "add_items lib0 list_backend [item0] added_once = (Inr (), added_twice)"
  by code_simp

lemma chunk_texts_item0: "chunk_texts list_backend [item0] = [''plan'']"
  by code_simp

theorem add_items_twice_appends_twice_witness:
  "add_items lib0 list_backend [item0] new_service = (Inr (), added_once) \<and>
   add_items lib0 list_backend [item0] added_once = (Inr (), added_twice) \<and>
   map page_content (documents added_twice) = [''plan'', ''plan'']"
proof -
  have n: "documents (new_service :: document list service) = []"
    by (simp add: new_service_def)
  from add_items_twice_appends_twice[OF add_once add_twice]
  have "map page_content (documents added_twice) = [''plan'', ''plan'']"
    by (simp add: n chunk_texts_item0)
  with add_once add_twice show ?thesis by (intro conjI)
qed

section \<open>The limit and the filter where they are as documented\<close>

text \<open>
  The Aggregation Engine itself keeps a positive limit, and the filter of the vector
  search is as documented whenever the request lists at most one source.
\<close>

lemma aggregation_respects_limit:
  assumes "get_context L C req n = (Inr resp, n')" and "limit req = Some k" and "0 < k"
  shows "int (length (context_items resp)) \<le> k"
proof -
  from assms(1) obtain arrived where
    "context_items resp = apply_limit (sort_reverse sort_key_of arrived) (limit req)"
    by (auto simp: get_context_Inr)
  with assms(2,3) show ?thesis
    by (auto simp: apply_limit_def slice_to_def)
qed

lemma search_filter_cases:
  "search_filter (filter_criteria_of req) =
     (case sources req of
        None \<Rightarrow> None
      | Some [] \<Rightarrow> None
      | Some [s] \<Rightarrow> Some [(''source'', PStr s)]
      | Some (s # t # ss) \<Rightarrow> Some [(''source'', PNone)])"
  by (auto simp: search_filter_def filter_dict_def filter_criteria_of_def
        split: option.splits list.splits)

end
